theory Spec2Isabelle
  imports Complex_Main
begin

section \<open>The markup parser: \<^verbatim>\<open>parseText\<close>\<close>

text \<open>
  The route handler \<^verbatim>\<open>src/app/api/text2png.png/route.ts\<close> is embedded function by
  function. JavaScript strings are modelled as \<^typ>\<open>string\<close>, lists of 8-bit characters;
  the only characters the code inspects are ASCII (the underscore of the delimiter,
  digits, sign and white space), and the length of a string is only compared with 0.
\<close>

record TextSegment =
  "text" :: string
  isBold :: bool

text \<open>
  \<^verbatim>\<open>text.split(/__/)\<close>. The regular expression has no captures and never matches the
  empty string, so ECMAScript's split scans from the left, cuts at the first position
  where two underscores stand, resumes behind them, and always yields the remaining
  tail as the last part (the empty string splits into one empty part).
\<close>

fun split_dunder :: "string \<Rightarrow> string list" where
  "split_dunder (a # b # rest) =
     (if a = CHR ''_'' \<and> b = CHR ''_'' then [] # split_dunder rest
      else (case split_dunder (b # rest) of
              [] \<Rightarrow> [[a]]
            | part # parts \<Rightarrow> (a # part) # parts))"
| "split_dunder [a] = [[a]]"
| "split_dunder [] = [[]]"

text \<open>
  The callback of \<^verbatim>\<open>parts.forEach((part, index) => ...)\<close>, run over the parts with the
  running index and the array \<^verbatim>\<open>segments\<close> that it pushes to.
\<close>

fun forEach_part :: "nat \<Rightarrow> string list \<Rightarrow> TextSegment list \<Rightarrow> TextSegment list" where
  "forEach_part index [] segments = segments"
| "forEach_part index (part # parts) segments =
     forEach_part (index + 1) parts
       (if length part > 0
        then segments @ [\<lparr>text = part, isBold = (index mod 2 = 1)\<rparr>]
        else segments)"

definition parseText :: "string \<Rightarrow> TextSegment list" where
  "parseText txt = forEach_part 0 (split_dunder txt) []"

subsection \<open>The specification's reading of the parser\<close>

text \<open>
  The number of delimiter occurrences, counted as the split finds them: from the left,
  without overlap.
\<close>

fun count_delims :: "string \<Rightarrow> nat" where
  "count_delims (a # b # rest) =
     (if a = CHR ''_'' \<and> b = CHR ''_'' then 1 + count_delims rest
      else count_delims (b # rest))"
| "count_delims [a] = 0"
| "count_delims [] = 0"

text \<open>The input with every delimiter occurrence removed, in one pass from the left.\<close>

fun remove_delims :: "string \<Rightarrow> string" where
  "remove_delims (a # b # rest) =
     (if a = CHR ''_'' \<and> b = CHR ''_'' then remove_delims rest
      else a # remove_delims (b # rest))"
| "remove_delims [a] = [a]"
| "remove_delims [] = []"

text \<open>
  The runs as the specification words them: the non-empty parts in order, each bold
  exactly when its index among all parts is odd.
\<close>

definition tagged_parts :: "string list \<Rightarrow> TextSegment list" where
  "tagged_parts parts =
     map (\<lambda>(i, part). \<lparr>text = part, isBold = odd i\<rparr>)
       (filter (\<lambda>(i, part). part \<noteq> []) (enumerate 0 parts))"

text \<open>Joining parts with the delimiter: the inverse of the split.\<close>

fun join_dunder :: "string list \<Rightarrow> string" where
  "join_dunder [] = []"
| "join_dunder [part] = part"
| "join_dunder (part # parts) = part @ ''__'' @ join_dunder parts"


section \<open>Numbers and \<^verbatim>\<open>parseInt\<close>\<close>

text \<open>
  A JavaScript number is a double: a real, an infinity or \<^verbatim>\<open>NaN\<close> (the sign of zero is
  not modelled). Arithmetic computes the exact result and rounds it to a double; the
  rounding \<open>rnd\<close> is a parameter, so that what is proved holds for IEEE rounding and
  nothing is proved from an exact sum or product that a double cannot hold.
\<close>

datatype number = NaN | PosInf | NegInf | Num real

fun sign_of :: "number \<Rightarrow> int" where
  "sign_of (Num a) = (if a > 0 then 1 else if a < 0 then - 1 else 0)"
| "sign_of PosInf = 1"
| "sign_of NegInf = - 1"
| "sign_of NaN = 0"

definition signed_infinity :: "int \<Rightarrow> number" where
  "signed_infinity s = (if s = 0 then NaN else if s > 0 then PosInf else NegInf)"

fun js_add :: "(real \<Rightarrow> number) \<Rightarrow> number \<Rightarrow> number \<Rightarrow> number" where
  "js_add rnd NaN y = NaN"
| "js_add rnd x NaN = NaN"
| "js_add rnd (Num a) (Num b) = rnd (a + b)"
| "js_add rnd PosInf NegInf = NaN"
| "js_add rnd NegInf PosInf = NaN"
| "js_add rnd PosInf y = PosInf"
| "js_add rnd NegInf y = NegInf"
| "js_add rnd (Num a) y = y"

fun js_mul :: "(real \<Rightarrow> number) \<Rightarrow> number \<Rightarrow> number \<Rightarrow> number" where
  "js_mul rnd NaN y = NaN"
| "js_mul rnd x NaN = NaN"
| "js_mul rnd (Num a) (Num b) = rnd (a * b)"
| "js_mul rnd x y = signed_infinity (sign_of x * sign_of y)"

fun js_div :: "(real \<Rightarrow> number) \<Rightarrow> number \<Rightarrow> number \<Rightarrow> number" where
  "js_div rnd NaN y = NaN"
| "js_div rnd x NaN = NaN"
| "js_div rnd (Num a) (Num b) =
     (if b = 0 then signed_infinity (sign_of (Num a)) else rnd (a / b))"
| "js_div rnd (Num a) y = Num 0"
| "js_div rnd x (Num b) = signed_infinity (sign_of x * (if b < 0 then - 1 else 1))"
| "js_div rnd x y = NaN"

fun Math_ceil :: "number \<Rightarrow> number" where
  "Math_ceil (Num a) = Num (of_int \<lceil>a\<rceil>)"
| "Math_ceil x = x"

text \<open>
  \<^verbatim>\<open>parseInt(s, 10)\<close>: leading white space is skipped, one sign is read, then the
  longest run of decimal digits; no digit gives \<^verbatim>\<open>NaN\<close>, and the integer read is
  rounded to a double. With the radix given as 10 no \<^verbatim>\<open>0x\<close> prefix is recognised.
  White space is the ASCII white space and the no-break space; the white space
  characters beyond 8 bits are outside the model.
\<close>

definition isWhiteSpace :: "char \<Rightarrow> bool" where
  "isWhiteSpace c = ((of_char c :: nat) \<in> {9, 10, 11, 12, 13, 32, 160})"

definition isDigit :: "char \<Rightarrow> bool" where
  "isDigit c = (48 \<le> (of_char c :: nat) \<and> (of_char c :: nat) \<le> 57)"

definition digitValue :: "char \<Rightarrow> int" where
  "digitValue c = int (of_char c) - 48"

definition parseInt :: "(real \<Rightarrow> number) \<Rightarrow> string \<Rightarrow> number" where
  "parseInt rnd inputString =
     (let S = dropWhile isWhiteSpace inputString;
          sign = (if S \<noteq> [] \<and> hd S = CHR ''-'' then - 1 else 1 :: int);
          S' = (if S \<noteq> [] \<and> (hd S = CHR ''+'' \<or> hd S = CHR ''-'') then tl S else S);
          Z = takeWhile isDigit S'
      in if Z = [] then NaN
         else rnd (of_int (sign * foldl (\<lambda>n c. 10 * n + digitValue c) 0 Z)))"


section \<open>The font registry: \<^verbatim>\<open>registerLocalFont\<close>\<close>

text \<open>
  The values of the table \<^verbatim>\<open>SUPPORTED_FONTS\<close>: a path string, an object with a
  \<^verbatim>\<open>regular\<close> and a \<^verbatim>\<open>bold\<close> path, or, since the table is a plain object literal and
  is indexed with an arbitrary string, a member inherited from \<^verbatim>\<open>Object.prototype\<close>.
\<close>

datatype fontConfig = PathString string | Faces string string | Inherited

definition SUPPORTED_FONTS :: "(string \<times> fontConfig) list" where
  "SUPPORTED_FONTS =
     [(''Roboto'', Faces ''/fonts/Roboto/Roboto-VariableFont_wdth,wght.ttf''
                         ''/fonts/Roboto/Roboto-VariableFont_wdth,wght.ttf''),
      (''Roboto-Italic'', PathString ''/fonts/Roboto/Roboto-Italic-VariableFont_wdth,wght.ttf''),
      (''Patua One'', PathString ''/fonts/Patua_One/PatuaOne-Regular.ttf''),
      (''Suisse'', Faces ''/fonts/Suisse/suisse-intl-regular.ttf''
                         ''/fonts/Suisse/suisse-intl-bold.ttf'')]"

text \<open>
  The property names every plain object inherits. Each is a function, or for
  \<^verbatim>\<open>__proto__\<close> the prototype object: a truthy value with no \<^verbatim>\<open>regular\<close> or
  \<^verbatim>\<open>bold\<close> property.
\<close>

definition Object_prototype_keys :: "string list" where
  "Object_prototype_keys =
     [''constructor'', ''__defineGetter__'', ''__defineSetter__'', ''hasOwnProperty'',
      ''__lookupGetter__'', ''__lookupSetter__'', ''isPrototypeOf'',
      ''propertyIsEnumerable'', ''toString'', ''valueOf'', ''__proto__'',
      ''toLocaleString'']"

text \<open>\<^verbatim>\<open>SUPPORTED_FONTS[fontFamily]\<close>: own properties first, then the prototype.\<close>

definition lookup_font :: "string \<Rightarrow> fontConfig option" where
  "lookup_font fontFamily =
     (case map_of SUPPORTED_FONTS fontFamily of
        Some fontConfig \<Rightarrow> Some fontConfig
      | None \<Rightarrow> if fontFamily \<in> set Object_prototype_keys then Some Inherited else None)"

text \<open>\<^verbatim>\<open>Object.keys(SUPPORTED_FONTS).join(', ')\<close>: the own keys in insertion order.\<close>

fun join_comma :: "string list \<Rightarrow> string" where
  "join_comma [] = []"
| "join_comma [k] = k"
| "join_comma (k # ks) = k @ '', '' @ join_comma ks"

text \<open>
  The font path the conditional expression selects; \<^const>\<open>None\<close> is
  \<^verbatim>\<open>undefined\<close>, read from an inherited member.
\<close>

fun select_fontPath :: "fontConfig \<Rightarrow> bool \<Rightarrow> string option" where
  "select_fontPath (PathString p) isBold' = Some p"
| "select_fontPath (Faces regular bold) isBold' = Some (if isBold' then bold else regular)"
| "select_fontPath Inherited isBold' = None"

text \<open>The errors thrown: \<^verbatim>\<open>new Error(message)\<close>, and the type error of \<^verbatim>\<open>path.join\<close>.\<close>

datatype error = Error string | TypeError string


subsection \<open>The canvas and the environment\<close>

text \<open>
  What the handler draws on. The canvas library is not part of the repository, so all
  it decides is a parameter of the environment: how doubles round, which size a canvas
  takes from the number assigned to its width or height, which colour a fill style
  string denotes (a string that denotes none leaves the fill style as it was), how a
  translucent fill blends, the width of a text in a font, and which call throws. The
  model keeps the drawing calls in order and the colour of the surface under the text
  (glyph rasterisation is not modelled).
\<close>

type_synonym rgba = "nat \<times> nat \<times> nat \<times> nat"

definition alpha :: "rgba \<Rightarrow> nat" where
  "alpha c = snd (snd (snd c))"

datatype draw_call =
    ClearRect number number number number
  | FillRect rgba number number number number
  | FillText "number \<times> string" rgba string string number number

datatype canvas_op =
    CreateCanvas number number
  | MeasureText "number \<times> string" string
  | SetWidth number
  | SetHeight number
  | Draw draw_call

record canvas =
  width :: nat
  height :: nat
  font :: "number \<times> string"
  fillStyle :: rgba
  textBaseline :: string
  background :: rgba
  calls :: "draw_call list"

record env =
  cwd :: string
  path_join :: "string \<Rightarrow> string \<Rightarrow> string \<Rightarrow> string"
  existsSync :: "string \<Rightarrow> bool"
  registerFont_throws :: "string \<Rightarrow> string \<Rightarrow> error option"
  round_double :: "real \<Rightarrow> number"
  to_size :: "number \<Rightarrow> nat"
  parse_color :: "string \<Rightarrow> rgba option"
  composite :: "rgba \<Rightarrow> rgba \<Rightarrow> rgba"
  measureText_width :: "number \<times> string \<Rightarrow> string \<Rightarrow> number"
  canvas_throws :: "canvas_op \<Rightarrow> error option"
  toBuffer_throws :: "canvas \<Rightarrow> error option"

text \<open>
  The mutable state: the module-level set \<^verbatim>\<open>registeredFonts\<close>, and the effects on the
  outside, logged in order: the paths probed on the file system, the fonts handed to
  the canvas library, the errors written to the console.
\<close>

record world =
  registeredFonts :: "string set"
  fs_probes :: "string list"
  backend_fonts :: "(string \<times> string) list"
  console_errors :: "error list"


subsection \<open>Registration\<close>

text \<open>
  \<^verbatim>\<open>registerLocalFont(fontFamily, isBold)\<close>, from a state to the handle or the error
  thrown, and the state after. (A name of the source that a record field has taken is
  written with a prime.) \<^verbatim>\<open>path.join\<close> rejects \<^verbatim>\<open>undefined\<close> before anything is
  looked up on the file system; a font is added to the cache only after the canvas
  library has taken it.
\<close>

definition registerLocalFont ::
  "env \<Rightarrow> string \<Rightarrow> bool \<Rightarrow> world \<Rightarrow> (error + string) \<times> world" where
  "registerLocalFont e fontFamily isBold' w =
     (let cacheKey = fontFamily @ (if isBold' then ''-bold'' else '''') in
      if cacheKey \<in> registeredFonts w
      then (Inr (if isBold' then fontFamily @ ''-bold'' else fontFamily), w)
      else
        (case lookup_font fontFamily of
           None \<Rightarrow>
             (Inl (Error (''Font '' @ [CHR 0x22] @ fontFamily @ [CHR 0x22]
                     @ '' is not supported. Supported fonts are: ''
                     @ join_comma (map fst SUPPORTED_FONTS))), w)
         | Some fontConfig \<Rightarrow>
             (case select_fontPath fontConfig isBold' of
                None \<Rightarrow>
                  (Inl (TypeError (''The '' @ [CHR 0x22] @ ''path'' @ [CHR 0x22]
                          @ '' argument must be of type string. Received undefined'')), w)
              | Some fontPath \<Rightarrow>
                  (let absoluteFontPath = path_join e (cwd e) ''public'' fontPath;
                       w1 = w\<lparr>fs_probes := fs_probes w @ [absoluteFontPath]\<rparr>
                   in if \<not> existsSync e absoluteFontPath
                      then (Inl (Error (''Font file not found: '' @ absoluteFontPath)), w1)
                      else
                        (let family = (if isBold' then fontFamily @ ''-bold'' else fontFamily)
                         in case registerFont_throws e absoluteFontPath family of
                              Some err \<Rightarrow> (Inl err, w1)
                            | None \<Rightarrow>
                                (Inr family,
                                 w1\<lparr>backend_fonts :=
                                       backend_fonts w1 @ [(absoluteFontPath, family)],
                                     registeredFonts :=
                                       insert cacheKey (registeredFonts w1)\<rparr>))))))"


section \<open>The request handler: \<^verbatim>\<open>GET\<close>\<close>

text \<open>
  The request is its query: \<^verbatim>\<open>searchParams.get(name)\<close> answers a string or
  \<^verbatim>\<open>null\<close>. In \<^verbatim>\<open>searchParams.get(name) || dflt\<close> the default stands in for
  \<^verbatim>\<open>null\<close> and for the empty string, the two falsy values a query can give.
\<close>

type_synonym searchParams = "string \<Rightarrow> string option"

definition or_default :: "string option \<Rightarrow> string \<Rightarrow> string" where
  "or_default v dflt = (case v of None \<Rightarrow> dflt | Some s \<Rightarrow> if s = [] then dflt else s)"

subsection \<open>The canvas calls the handler makes\<close>

text \<open>
  A new canvas of the size the library takes from the two numbers, with the context
  defaults of the canvas API: black fill, a transparent surface.
\<close>

definition createCanvas :: "env \<Rightarrow> number \<Rightarrow> number \<Rightarrow> canvas" where
  "createCanvas e w h =
     \<lparr>width = to_size e w, height = to_size e h, font = (Num 10, ''sans-serif''),
      fillStyle = (0, 0, 0, 255), textBaseline = ''alphabetic'',
      background = (0, 0, 0, 0), calls = []\<rparr>"

text \<open>\<^verbatim>\<open>ctx.fillStyle = s\<close>: a string that is no colour is ignored.\<close>

definition set_fillStyle :: "env \<Rightarrow> string \<Rightarrow> canvas \<Rightarrow> canvas" where
  "set_fillStyle e s ctx =
     ctx\<lparr>fillStyle := (case parse_color e s of Some c \<Rightarrow> c | None \<Rightarrow> fillStyle ctx)\<rparr>"

text \<open>Whether a rectangle covers the whole surface.\<close>

fun covers :: "canvas \<Rightarrow> number \<Rightarrow> number \<Rightarrow> number \<Rightarrow> number \<Rightarrow> bool" where
  "covers ctx (Num x) (Num y) (Num w) (Num h) =
     (x \<le> 0 \<and> y \<le> 0 \<and> real (width ctx) \<le> x + w \<and> real (height ctx) \<le> y + h)"
| "covers ctx x y w h = False"

text \<open>
  Source over destination: on a transparent destination, or with an opaque source, the
  result is the source; any other blend is the library's.
\<close>

definition over :: "env \<Rightarrow> rgba \<Rightarrow> rgba \<Rightarrow> rgba" where
  "over e src dst =
     (if alpha dst = 0 \<or> alpha src = 255 then src else composite e src dst)"

definition clearRect :: "number \<Rightarrow> number \<Rightarrow> number \<Rightarrow> number \<Rightarrow> canvas \<Rightarrow> canvas" where
  "clearRect x y w h ctx =
     ctx\<lparr>background := (if covers ctx x y w h then (0, 0, 0, 0) else background ctx),
         calls := calls ctx @ [ClearRect x y w h]\<rparr>"

definition fillRect :: "env \<Rightarrow> number \<Rightarrow> number \<Rightarrow> number \<Rightarrow> number \<Rightarrow> canvas \<Rightarrow> canvas" where
  "fillRect e x y w h ctx =
     ctx\<lparr>background := (if covers ctx x y w h then over e (fillStyle ctx) (background ctx)
                         else background ctx),
         calls := calls ctx @ [FillRect (fillStyle ctx) x y w h]\<rparr>"

definition fillText :: "string \<Rightarrow> number \<Rightarrow> number \<Rightarrow> canvas \<Rightarrow> canvas" where
  "fillText t x y ctx =
     ctx\<lparr>calls := calls ctx @ [FillText (font ctx) (fillStyle ctx) (textBaseline ctx) t x y]\<rparr>"


subsection \<open>Errors and the two loops\<close>

text \<open>
  A canvas call that the library lets throw ends the \<^verbatim>\<open>try\<close> block with that error;
  \<open>then_do\<close> passes a value on and an error through.
\<close>

definition attempt :: "env \<Rightarrow> canvas_op \<Rightarrow> error + 'a \<Rightarrow> error + 'a" where
  "attempt e op k = (case canvas_throws e op of Some err \<Rightarrow> Inl err | None \<Rightarrow> k)"

definition then_do :: "error + 'a \<Rightarrow> ('a \<Rightarrow> error + 'b) \<Rightarrow> error + 'b" where
  "then_do r k = (case r of Inl err \<Rightarrow> Inl err | Inr v \<Rightarrow> k v)"

text \<open>
  The first \<^verbatim>\<open>segments.forEach\<close>: it sets the font of the run on the context, measures
  the run and adds its width to \<^verbatim>\<open>totalWidth\<close>. The template string
  \<^verbatim>\<open>`${scaledFontSize}px "${fontName}"`\<close> is kept as the pair of its two holes.
\<close>

fun measure_forEach ::
  "env \<Rightarrow> string \<Rightarrow> string \<Rightarrow> number \<Rightarrow> TextSegment list \<Rightarrow> canvas \<times> number
     \<Rightarrow> error + canvas \<times> number" where
  "measure_forEach e regularFontFamily boldFontFamily scaledFontSize [] (ctx, totalWidth) =
     Inr (ctx, totalWidth)"
| "measure_forEach e regularFontFamily boldFontFamily scaledFontSize (segment # segments)
     (ctx, totalWidth) =
     (let fontName = (if isBold segment then boldFontFamily else regularFontFamily);
          ctx1 = ctx\<lparr>font := (scaledFontSize, fontName)\<rparr>
      in attempt e (MeasureText (font ctx1) (text segment))
           (measure_forEach e regularFontFamily boldFontFamily scaledFontSize segments
              (ctx1, js_add (round_double e) totalWidth
                       (measureText_width e (font ctx1) (text segment)))))"

text \<open>
  The second \<^verbatim>\<open>segments.forEach\<close>: it sets font, fill style and baseline, draws the run
  at \<^verbatim>\<open>(currentX, height / 2)\<close> and advances \<^verbatim>\<open>currentX\<close> by the measured width.
\<close>

fun draw_forEach ::
  "env \<Rightarrow> string \<Rightarrow> string \<Rightarrow> number \<Rightarrow> number \<Rightarrow> TextSegment list \<Rightarrow> canvas \<times> number
     \<Rightarrow> error + canvas \<times> number" where
  "draw_forEach e regularFontFamily boldFontFamily scaledFontSize height' []
     (ctx, currentX) = Inr (ctx, currentX)"
| "draw_forEach e regularFontFamily boldFontFamily scaledFontSize height' (segment # segments)
     (ctx, currentX) =
     (let fontName = (if isBold segment then boldFontFamily else regularFontFamily);
          ctx1 = ctx\<lparr>font := (scaledFontSize, fontName)\<rparr>;
          ctx2 = set_fillStyle e ''black'' ctx1;
          ctx3 = ctx2\<lparr>textBaseline := ''middle''\<rparr>;
          y = js_div (round_double e) height' (Num 2)
      in attempt e
           (Draw (FillText (font ctx3) (fillStyle ctx3) (textBaseline ctx3) (text segment)
                    currentX y))
           (attempt e (MeasureText (font ctx3) (text segment))
              (draw_forEach e regularFontFamily boldFontFamily scaledFontSize height' segments
                 (fillText (text segment) currentX y ctx3,
                  js_add (round_double e) currentX
                    (measureText_width e (font ctx3) (text segment))))))"

text \<open>
  The responses: the PNG buffer of a canvas with its headers, or a JSON body with a
  status. The encoded image is represented by the canvas it encodes.
\<close>

datatype buffer = PngBuffer canvas

datatype response =
    NextResponse buffer "(string \<times> string) list"
  | NextResponse_json "(string \<times> string) list" nat

subsection \<open>The handler\<close>

text \<open>
  The canvas part of the \<^verbatim>\<open>try\<close> block, from \<^verbatim>\<open>createCanvas(1, 1)\<close> to the last
  text drawn, for the parameters read and the two font handles. Assigning a width or
  a height gives the canvas the size the library takes from the number and a cleared
  surface.
\<close>

definition draw_request ::
  "env \<Rightarrow> string \<Rightarrow> number \<Rightarrow> string \<Rightarrow> number \<Rightarrow> string \<Rightarrow> string \<Rightarrow> error + canvas" where
  "draw_request e text' fontSize backgroundColor scale regularFontFamily boldFontFamily =
     attempt e (CreateCanvas (Num 1) (Num 1))
       (let ctx0 = createCanvas e (Num 1) (Num 1);
            scaledFontSize = js_mul (round_double e) fontSize scale;
            segments = parseText text'
        in then_do
             (measure_forEach e regularFontFamily boldFontFamily scaledFontSize segments
                (ctx0, Num 0))
             (\<lambda>(ctx1, totalWidth).
                let basePadding = Num 8;
                    padding = js_mul (round_double e) basePadding scale;
                    width' = Math_ceil (js_add (round_double e) totalWidth
                                          (js_mul (round_double e) padding (Num 2)));
                    height' = Math_ceil (js_add (round_double e) scaledFontSize
                                           (js_mul (round_double e) padding (Num 2)))
                in attempt e (SetWidth width')
                     (attempt e (SetHeight height')
                        (let ctx2 = ctx1\<lparr>width := to_size e width',
                                         height := to_size e height',
                                         background := (0, 0, 0, 0)\<rparr>
                         in attempt e (Draw (ClearRect (Num 0) (Num 0) width' height'))
                              (let ctx3 = clearRect (Num 0) (Num 0) width' height' ctx2
                               in then_do
                                    (if backgroundColor \<noteq> ''transparent''
                                     then (let ctx3' = set_fillStyle e backgroundColor ctx3
                                           in attempt e
                                                (Draw (FillRect (fillStyle ctx3') (Num 0) (Num 0)
                                                         width' height'))
                                                (Inr (fillRect e (Num 0) (Num 0) width' height'
                                                        ctx3')))
                                     else Inr ctx3)
                                    (\<lambda>ctx4.
                                       then_do
                                         (draw_forEach e regularFontFamily boldFontFamily
                                            scaledFontSize height' segments (ctx4, padding))
                                         (\<lambda>(ctx5, currentX). Inr ctx5)))))))"

text \<open>
  The \<^verbatim>\<open>try\<close> block behind its first five lines, for the parameters they read: both
  faces are registered, the canvas is drawn and encoded. \<^const>\<open>Inl\<close> is a thrown
  error.
\<close>

definition render ::
  "env \<Rightarrow> string \<Rightarrow> string \<Rightarrow> number \<Rightarrow> string \<Rightarrow> number \<Rightarrow> world
     \<Rightarrow> (error + response) \<times> world" where
  "render e text' fontFamily fontSize backgroundColor scale w =
     (case registerLocalFont e fontFamily False w of
        (Inl err, w1) \<Rightarrow> (Inl err, w1)
      | (Inr regularFontFamily, w1) \<Rightarrow>
          (case registerLocalFont e fontFamily True w1 of
             (Inl err, w2) \<Rightarrow> (Inl err, w2)
           | (Inr boldFontFamily, w2) \<Rightarrow>
               (case draw_request e text' fontSize backgroundColor scale
                       regularFontFamily boldFontFamily of
                  Inl err \<Rightarrow> (Inl err, w2)
                | Inr ctx5 \<Rightarrow>
                    (case toBuffer_throws e ctx5 of
                       Some err \<Rightarrow> (Inl err, w2)
                     | None \<Rightarrow>
                         (Inr (NextResponse (PngBuffer ctx5)
                                 [(''Content-Type'', ''image/png''),
                                  (''Cache-Control'', ''public, max-age=31536000'')]),
                          w2)))))"

text \<open>The body of the \<^verbatim>\<open>try\<close> block: the parameters with their defaults, then the rest.\<close>

definition GET_try :: "env \<Rightarrow> searchParams \<Rightarrow> world \<Rightarrow> (error + response) \<times> world" where
  "GET_try e searchParams w =
     (let text' = or_default (searchParams ''text'') ''Hello World'';
          fontFamily = or_default (searchParams ''font'') ''Suisse'';
          fontSize = parseInt (round_double e) (or_default (searchParams ''font_size'') ''24'');
          backgroundColor = or_default (searchParams ''background_color'') ''transparent'';
          scale = parseInt (round_double e) (or_default (searchParams ''scale'') ''2'')
      in render e text' fontFamily fontSize backgroundColor scale w)"

text \<open>
  The handler: the \<^verbatim>\<open>catch\<close> clause writes the error to the console and answers the
  fixed JSON body with status 500.
\<close>

definition GET :: "env \<Rightarrow> searchParams \<Rightarrow> world \<Rightarrow> response \<times> world" where
  "GET e searchParams w =
     (case GET_try e searchParams w of
        (Inl err, w') \<Rightarrow>
          (NextResponse_json [(''error'', ''Failed to generate image'')] 500,
           w'\<lparr>console_errors := console_errors w' @ [err]\<rparr>)
      | (Inr res, w') \<Rightarrow> (res, w'))"


subsection \<open>A concrete environment\<close>

text \<open>
  A deployment with every font file in place and a canvas library that throws nowhere.
  A canvas takes the whole part of a positive size and 0 from anything else. The
  typeface advances every glyph by 17/64 of the font size (at the context's default
  size of 10 pixels when the size set is not a number). Rounding is the identity: every
  number the examples compute is a dyadic rational of few bits, which IEEE rounding
  leaves as it is.
\<close>

definition example_env :: env where
  "example_env =
     \<lparr>cwd = ''/app'',
      path_join = (\<lambda>a b c. a @ ''/'' @ b @ c),
      existsSync = (\<lambda>p. True),
      registerFont_throws = (\<lambda>p family. None),
      round_double = Num,
      to_size = (\<lambda>n. case n of Num a \<Rightarrow> (if a > 0 then nat \<lfloor>a\<rfloor> else 0) | _ \<Rightarrow> 0),
      parse_color =
        map_of [(''black'', (0, 0, 0, 255)), (''red'', (255, 0, 0, 255)),
                (''rgba(255,0,0,0.5)'', (255, 0, 0, 127))],
      composite = (\<lambda>src dst. src),
      measureText_width =
        (\<lambda>(px, family) t.
           Num ((case px of Num z \<Rightarrow> z | _ \<Rightarrow> 10) * real (length t) * 17 / 64)),
      canvas_throws = (\<lambda>op. None),
      toBuffer_throws = (\<lambda>c. None)\<rparr>"

definition fresh_world :: world where
  "fresh_world =
     \<lparr>registeredFonts = {}, fs_probes = [], backend_fonts = [], console_errors = []\<rparr>"

text \<open>A query given as the list of its pairs.\<close>

definition query :: "(string \<times> string) list \<Rightarrow> searchParams" where
  "query pairs = map_of pairs"

section \<open>The specification's reading of the handler\<close>

text \<open>The five parameters of a request, each with its default.\<close>

definition requested_text :: "searchParams \<Rightarrow> string" where
  "requested_text q = or_default (q ''text'') ''Hello World''"

definition requested_font :: "searchParams \<Rightarrow> string" where
  "requested_font q = or_default (q ''font'') ''Suisse''"

definition requested_font_size :: "env \<Rightarrow> searchParams \<Rightarrow> number" where
  "requested_font_size e q = parseInt (round_double e) (or_default (q ''font_size'') ''24'')"

definition requested_background :: "searchParams \<Rightarrow> string" where
  "requested_background q = or_default (q ''background_color'') ''transparent''"

definition requested_scale :: "env \<Rightarrow> searchParams \<Rightarrow> number" where
  "requested_scale e q = parseInt (round_double e) (or_default (q ''scale'') ''2'')"

text \<open>
  The measured width of one run in the face its boldness selects, and the total width
  of a line: the widths of its runs added up from 0, from left to right, in doubles.
\<close>

definition run_width :: "env \<Rightarrow> string \<Rightarrow> string \<Rightarrow> number \<Rightarrow> TextSegment \<Rightarrow> number" where
  "run_width e regular bold px seg =
     measureText_width e (px, if isBold seg then bold else regular) (text seg)"

definition total_width :: "env \<Rightarrow> string \<Rightarrow> string \<Rightarrow> number \<Rightarrow> TextSegment list \<Rightarrow> number" where
  "total_width e regular bold px segs =
     foldl (js_add (round_double e)) (Num 0) (map (run_width e regular bold px) segs)"

text \<open>
  The text drawing calls of a line: each run in the colour \<open>c\<close> on the middle baseline
  at height \<open>y\<close>, from the cursor \<open>x\<close>, which advances by the width of the run.
\<close>

fun draw_calls ::
  "env \<Rightarrow> string \<Rightarrow> string \<Rightarrow> number \<Rightarrow> rgba \<Rightarrow> number \<Rightarrow> number \<Rightarrow> TextSegment list
     \<Rightarrow> draw_call list" where
  "draw_calls e regular bold px c y x [] = []"
| "draw_calls e regular bold px c y x (seg # segs) =
     FillText (px, if isBold seg then bold else regular) c ''middle'' (text seg) x y
       # draw_calls e regular bold px c y
           (js_add (round_double e) x (run_width e regular bold px seg)) segs"

fun is_FillText :: "draw_call \<Rightarrow> bool" where
  "is_FillText (FillText f s b t x y) = True"
| "is_FillText _ = False"

text \<open>
  The colour the text is drawn in, from the fill style \<open>c\<close> in force before: what
  \<^verbatim>\<open>black\<close> denotes. The colour a background is filled in: what the background string
  denotes, or the context's default black when it denotes no colour.
\<close>

definition text_colour :: "env \<Rightarrow> rgba \<Rightarrow> rgba" where
  "text_colour e c = (case parse_color e ''black'' of Some k \<Rightarrow> k | None \<Rightarrow> c)"

definition fill_colour :: "env \<Rightarrow> string \<Rightarrow> rgba" where
  "fill_colour e bg = (case parse_color e bg of Some c \<Rightarrow> c | None \<Rightarrow> (0, 0, 0, 255))"

text \<open>The bitmap a response carries, if any.\<close>

definition bitmap :: "response \<Rightarrow> canvas option" where
  "bitmap res = (case res of NextResponse (PngBuffer c) hdrs \<Rightarrow> Some c
                 | NextResponse_json body status \<Rightarrow> None)"

text \<open>
  The keys the cache can come to hold: each family of the table, plain and with the
  bold marker. A state whose cache holds only such keys is one the handler can reach.
\<close>

definition cache_keys :: "string set" where
  "cache_keys = set (concat (map (\<lambda>(k, c). [k, k @ ''-bold'']) SUPPORTED_FONTS))"

definition registry_ok :: "world \<Rightarrow> bool" where
  "registry_ok w = (registeredFonts w \<subseteq> cache_keys)"




section \<open>Properties of the parser\<close>

lemma split_dunder_not_Nil: "split_dunder s \<noteq> []"
  by (induction s rule: split_dunder.induct) (auto split: list.splits)

lemma split_dunder_other:
  assumes "\<not> (a = CHR ''_'' \<and> b = CHR ''_'')"
  shows "split_dunder (a # b # rest) =
           (a # hd (split_dunder (b # rest))) # tl (split_dunder (b # rest))"
  using assms split_dunder_not_Nil[of "b # rest"]
  by (cases "split_dunder (b # rest)") auto

lemma length_split_dunder: "length (split_dunder s) = count_delims s + 1"
proof (induction s rule: split_dunder.induct)
  case (1 a b rest)
  show ?case
  proof (cases "a = CHR ''_'' \<and> b = CHR ''_''")
    case True
    with 1(1) show ?thesis by simp
  next
    case False
    have "length (split_dunder (a # b # rest)) = length (split_dunder (b # rest))"
      using split_dunder_not_Nil[of "b # rest"]
      by (simp only: split_dunder_other[OF False]) simp
    with 1(2)[OF False] False show ?thesis by auto
  qed
qed simp_all

lemma join_dunder_Cons:
  "parts \<noteq> [] \<Longrightarrow> join_dunder (part # parts) = part @ ''__'' @ join_dunder parts"
  by (cases parts) auto

lemma join_dunder_push:
  "parts \<noteq> [] \<Longrightarrow> join_dunder ((a # hd parts) # tl parts) = a # join_dunder parts"
  by (cases parts rule: join_dunder.cases) auto

lemma join_split_dunder: "join_dunder (split_dunder s) = s"
proof (induction s rule: split_dunder.induct)
  case (1 a b rest)
  show ?case
  proof (cases "a = CHR ''_'' \<and> b = CHR ''_''")
    case True
    with 1(1) show ?thesis by (simp add: join_dunder_Cons split_dunder_not_Nil)
  next
    case False
    show ?thesis
      using 1(2)[OF False]
      by (simp only: split_dunder_other[OF False] join_dunder_push[OF split_dunder_not_Nil])
  qed
qed simp_all

lemma forEach_part_eq:
  "forEach_part i parts segs =
     segs @ map (\<lambda>(i, part). \<lparr>text = part, isBold = odd i\<rparr>)
       (filter (\<lambda>(i, part). part \<noteq> []) (enumerate i parts))"
  by (induction parts arbitrary: i segs) (auto simp: odd_iff_mod_2_eq_one)

lemma parseText_tagged: "parseText s = tagged_parts (split_dunder s)"
  by (simp add: parseText_def tagged_parts_def forEach_part_eq)

lemma concat_tagged_parts: "concat (map text (tagged_parts parts)) = concat parts"
proof -
  have "concat (map text (map (\<lambda>(i, part). \<lparr>text = part, isBold = odd i\<rparr>)
          (filter (\<lambda>(i, part). part \<noteq> []) (enumerate i parts)))) = concat parts" for i
    by (induction parts arbitrary: i) auto
  then show ?thesis by (simp only: tagged_parts_def)
qed

lemma concat_push: "parts \<noteq> [] \<Longrightarrow> concat ((a # hd parts) # tl parts) = a # concat parts"
  by (cases parts) auto

lemma concat_split_dunder: "concat (split_dunder s) = remove_delims s"
proof (induction s rule: split_dunder.induct)
  case (1 a b rest)
  show ?case
  proof (cases "a = CHR ''_'' \<and> b = CHR ''_''")
    case True
    with 1(1) show ?thesis by simp
  next
    case False
    have "concat (split_dunder (a # b # rest)) = a # concat (split_dunder (b # rest))"
      by (simp only: split_dunder_other[OF False] concat_push[OF split_dunder_not_Nil])
    with 1(2)[OF False] False show ?thesis by auto
  qed
qed simp_all

lemma split_no_delims: "count_delims s = 0 \<Longrightarrow> split_dunder s = [s]"
proof (induction s rule: split_dunder.induct)
  case (1 a b rest)
  from 1(3) have F: "\<not> (a = CHR ''_'' \<and> b = CHR ''_'')" by (auto split: if_splits)
  with 1(3) have "count_delims (b # rest) = 0" by auto
  with 1(2)[OF F] have "split_dunder (b # rest) = [b # rest]" by simp
  then show ?case by (simp only: split_dunder_other[OF F]) simp
qed simp_all

lemma tagged_parts_snoc:
  "tagged_parts (ps @ [p]) =
     tagged_parts ps @ (if p = [] then [] else [\<lparr>text = p, isBold = odd (length ps)\<rparr>])"
  by (simp add: tagged_parts_def enumerate_append_eq)

lemma tagged_parts_last:
  assumes "parts \<noteq> []" "last parts \<noteq> []"
  shows "tagged_parts parts \<noteq> [] \<and>
         last (tagged_parts parts) = \<lparr>text = last parts, isBold = even (length parts)\<rparr>"
proof -
  from assms(1) obtain ps p where parts: "parts = ps @ [p]" by (metis rev_exhaust)
  with assms(2) have "p \<noteq> []" by simp
  then show ?thesis unfolding parts by (simp add: tagged_parts_snoc)
qed

lemma split_dunder_hd:
  "hd (split_dunder (b # rest)) = [] \<or> (\<exists>p'. hd (split_dunder (b # rest)) = b # p')"
proof (cases rest)
  case Nil
  then show ?thesis by simp
next
  case (Cons c rest')
  show ?thesis
  proof (cases "b = CHR ''_'' \<and> c = CHR ''_''")
    case True
    with Cons show ?thesis by simp
  next
    case False
    then show ?thesis unfolding Cons by (simp only: split_dunder_other[OF False]) simp
  qed
qed

lemma count_delims_push:
  assumes "\<not> (a = CHR ''_'' \<and> b = CHR ''_'')" "p = [] \<or> (\<exists>p'. p = b # p')"
    "count_delims p = 0"
  shows "count_delims (a # p) = 0"
  using assms by auto

lemma split_dunder_parts: "list_all (\<lambda>part. count_delims part = 0) (split_dunder s)"
proof (induction s rule: split_dunder.induct)
  case (1 a b rest)
  show ?case
  proof (cases "a = CHR ''_'' \<and> b = CHR ''_''")
    case True
    with 1(1) show ?thesis by simp
  next
    case False
    let ?ps = "split_dunder (b # rest)"
    from 1(2)[OF False] have all: "list_all (\<lambda>part. count_delims part = 0) ?ps" .
    have ne: "?ps \<noteq> []" by (rule split_dunder_not_Nil)
    from all ne have h: "count_delims (hd ?ps) = 0"
      and t: "list_all (\<lambda>part. count_delims part = 0) (tl ?ps)"
      by (cases ?ps; simp)+
    from count_delims_push[OF False split_dunder_hd h]
    have "count_delims (a # hd ?ps) = 0" .
    with t show ?thesis by (simp only: split_dunder_other[OF False]) simp
  qed
qed simp_all

text \<open>
  C1, as stated, fails on its last clause: the text \<^verbatim>\<open>a__\<close> holds one delimiter, an odd
  number, and parses to the single run \<^verbatim>\<open>a\<close>, which is not bold. The part behind the
  delimiter is empty and the guard \<^verbatim>\<open>part.length > 0\<close> drops it.
\<close>

theorem parseText_trailing_bold_counterexample:
  "odd (count_delims ''a__'') \<and>
   parseText ''a__'' = [\<lparr>text = ''a'', isBold = False\<rparr>] \<and>
   \<not> isBold (last (parseText ''a__''))"
  by (simp add: parseText_def)

text \<open>
  C1, amended. For every input string, \<^verbatim>\<open>parseText\<close> splits the string on every
  occurrence of the delimiter (the parts joined by the delimiter give the input back,
  there is one part more than occurrences, and no part holds a delimiter) and returns, in order, exactly the
  non-empty parts, each bold iff its index in the split is odd. A non-empty string
  without a delimiter yields one non-bold run equal to the input; a string with an odd
  number of delimiters whose last part is not empty ends with that part as a bold run.
\<close>

theorem parseText_runs:
  "parseText s = tagged_parts (split_dunder s) \<and>
   join_dunder (split_dunder s) = s \<and>
   length (split_dunder s) = count_delims s + 1 \<and>
   list_all (\<lambda>part. count_delims part = 0) (split_dunder s) \<and>
   (count_delims s = 0 \<and> s \<noteq> [] \<longrightarrow> parseText s = [\<lparr>text = s, isBold = False\<rparr>]) \<and>
   (odd (count_delims s) \<and> last (split_dunder s) \<noteq> [] \<longrightarrow>
      parseText s \<noteq> [] \<and>
      last (parseText s) = \<lparr>text = last (split_dunder s), isBold = True\<rparr>)"
proof (intro conjI impI)
  show "parseText s = tagged_parts (split_dunder s)" by (rule parseText_tagged)
  show "join_dunder (split_dunder s) = s" by (rule join_split_dunder)
  show "length (split_dunder s) = count_delims s + 1" by (rule length_split_dunder)
  show "list_all (\<lambda>part. count_delims part = 0) (split_dunder s)"
    by (rule split_dunder_parts)
next
  assume "count_delims s = 0 \<and> s \<noteq> []"
  then show "parseText s = [\<lparr>text = s, isBold = False\<rparr>]"
    by (simp add: parseText_tagged split_no_delims tagged_parts_def)
next
  assume a: "odd (count_delims s) \<and> last (split_dunder s) \<noteq> []"
  then have ev: "even (length (split_dunder s))" by (simp add: length_split_dunder)
  from tagged_parts_last[OF split_dunder_not_Nil, of s] a ev
  show "parseText s \<noteq> []"
    and "last (parseText s) = \<lparr>text = last (split_dunder s), isBold = True\<rparr>"
    by (simp_all add: parseText_tagged)
qed

theorem parseText_runs_witness:
  "count_delims ''Hi'' = 0 \<and> parseText ''Hi'' = [\<lparr>text = ''Hi'', isBold = False\<rparr>] \<and>
   odd (count_delims ''a__b'') \<and> last (split_dunder ''a__b'') = ''b'' \<and>
   parseText ''a__b'' = [\<lparr>text = ''a'', isBold = False\<rparr>, \<lparr>text = ''b'', isBold = True\<rparr>] \<and>
   last (parseText ''a__b'') = \<lparr>text = ''b'', isBold = True\<rparr>"
  using parseText_runs[of "''Hi''"] parseText_runs[of "''a__b''"]
  by (simp add: tagged_parts_def)

text \<open>
  C9. Concatenating the texts of the runs of \<^verbatim>\<open>parseText(s)\<close> in order gives \<^verbatim>\<open>s\<close> with
  every occurrence of the delimiter removed: nothing outside the delimiters is lost or
  reordered.
\<close>

theorem parseText_concat: "concat (map text (parseText s)) = remove_delims s"
  by (simp only: parseText_tagged concat_tagged_parts concat_split_dunder)


section \<open>Properties of the font registry\<close>

lemmas eval_defs = GET_def GET_try_def render_def draw_request_def attempt_def then_do_def
  Let_def or_default_def query_def parseInt_def isWhiteSpace_def isDigit_def digitValue_def
  registerLocalFont_def lookup_font_def SUPPORTED_FONTS_def Object_prototype_keys_def
  example_env_def fresh_world_def parseText_def createCanvas_def set_fillStyle_def
  clearRect_def fillRect_def fillText_def over_def alpha_def

lemmas request_defs = requested_text_def requested_font_def requested_font_size_def
  requested_background_def requested_scale_def

lemma registerLocalFont_handle:
  assumes "registerLocalFont e fontFamily b w = (Inr h, w')"
  shows "h = (if b then fontFamily @ ''-bold'' else fontFamily)"
  using assms
  by (auto simp: registerLocalFont_def Let_def split: if_splits option.splits)

lemma registerLocalFont_cached:
  assumes "registerLocalFont e fontFamily b w = (Inr h, w')"
  shows "fontFamily @ (if b then ''-bold'' else '''') \<in> registeredFonts w'"
  using assms
  by (auto simp: registerLocalFont_def Let_def split: if_splits option.splits)

lemma registerLocalFont_hit:
  assumes "fontFamily @ (if b then ''-bold'' else '''') \<in> registeredFonts w"
  shows "registerLocalFont e fontFamily b w =
           (Inr (if b then fontFamily @ ''-bold'' else fontFamily), w)"
  using assms by (simp add: registerLocalFont_def)

text \<open>
  C3. Registration is idempotent: when a call for a family and weight succeeds, a second
  call for the same pair returns the same handle and leaves the whole state as it is:
  the cache, the log of file system probes (no file is looked up again) and the log of
  fonts handed to the canvas library (nothing is registered again).
\<close>

theorem registerLocalFont_idempotent:
  assumes "registerLocalFont e fontFamily b w = (Inr h, w')"
  shows "registerLocalFont e fontFamily b w' = (Inr h, w') \<and>
         registeredFonts (snd (registerLocalFont e fontFamily b w')) = registeredFonts w' \<and>
         fs_probes (snd (registerLocalFont e fontFamily b w')) = fs_probes w' \<and>
         backend_fonts (snd (registerLocalFont e fontFamily b w')) = backend_fonts w'"
  using registerLocalFont_hit[OF registerLocalFont_cached[OF assms], of e]
    registerLocalFont_handle[OF assms] by simp

theorem registerLocalFont_idempotent_witness:
  "registerLocalFont example_env ''Suisse'' True fresh_world =
     (Inr ''Suisse-bold'',
      \<lparr>registeredFonts = {''Suisse-bold''},
       fs_probes = [''/app/public/fonts/Suisse/suisse-intl-bold.ttf''],
       backend_fonts = [(''/app/public/fonts/Suisse/suisse-intl-bold.ttf'', ''Suisse-bold'')],
       console_errors = []\<rparr>) \<and>
   registerLocalFont example_env ''Suisse'' True
     \<lparr>registeredFonts = {''Suisse-bold''},
       fs_probes = [''/app/public/fonts/Suisse/suisse-intl-bold.ttf''],
       backend_fonts = [(''/app/public/fonts/Suisse/suisse-intl-bold.ttf'', ''Suisse-bold'')],
       console_errors = []\<rparr> =
     (Inr ''Suisse-bold'',
      \<lparr>registeredFonts = {''Suisse-bold''},
       fs_probes = [''/app/public/fonts/Suisse/suisse-intl-bold.ttf''],
       backend_fonts = [(''/app/public/fonts/Suisse/suisse-intl-bold.ttf'', ''Suisse-bold'')],
       console_errors = []\<rparr>)"
proof -
  have first: "registerLocalFont example_env ''Suisse'' True fresh_world =
     (Inr ''Suisse-bold'',
      \<lparr>registeredFonts = {''Suisse-bold''},
       fs_probes = [''/app/public/fonts/Suisse/suisse-intl-bold.ttf''],
       backend_fonts = [(''/app/public/fonts/Suisse/suisse-intl-bold.ttf'', ''Suisse-bold'')],
       console_errors = []\<rparr>)"
    by (simp add: registerLocalFont_def Let_def example_env_def fresh_world_def lookup_font_def
        SUPPORTED_FONTS_def)
  from registerLocalFont_idempotent[OF first] first show ?thesis by simp
qed

text \<open>
  A family that the table does not hold, neither as an own key nor as an inherited
  member, and whose cache key is not registered, is refused with the message that
  lists the supported families; the state is left as it is.
\<close>

lemma registerLocalFont_unsupported:
  assumes "lookup_font fontFamily = None"
    and "fontFamily @ (if b then ''-bold'' else '''') \<notin> registeredFonts w"
  shows "registerLocalFont e fontFamily b w =
     (Inl (Error (''Font '' @ [CHR 0x22] @ fontFamily @ [CHR 0x22] @
        '' is not supported. Supported fonts are: Roboto, Roboto-Italic, Patua One, Suisse'')),
      w)"
  using assms by (simp add: registerLocalFont_def SUPPORTED_FONTS_def)

text \<open>
  C4 fails on the code for the names every object inherits. The family
  \<^verbatim>\<open>constructor\<close> is not in the allow-list and nothing is cached, yet the lookup
  \<^verbatim>\<open>SUPPORTED_FONTS["constructor"]\<close> finds the inherited member, the check
  \<^verbatim>\<open>!fontConfig\<close> passes, the font path is \<^verbatim>\<open>undefined\<close> and \<^verbatim>\<open>path.join\<close> throws a
  type error whose message names no supported family. The request still ends without
  a bitmap; the console receives the type error.
\<close>

theorem registerLocalFont_inherited_key:
  "''constructor'' \<notin> set (map fst SUPPORTED_FONTS) \<and>
   registerLocalFont e ''constructor'' False fresh_world =
     (Inl (TypeError (''The '' @ [CHR 0x22] @ ''path'' @ [CHR 0x22] @
             '' argument must be of type string. Received undefined'')), fresh_world) \<and>
   GET e (query [(''font'', ''constructor'')]) fresh_world =
     (NextResponse_json [(''error'', ''Failed to generate image'')] 500,
      fresh_world\<lparr>console_errors :=
        [TypeError (''The '' @ [CHR 0x22] @ ''path'' @ [CHR 0x22] @
           '' argument must be of type string. Received undefined'')]\<rparr>)"
  by (simp add: GET_def GET_try_def render_def or_default_def query_def registerLocalFont_def
      fresh_world_def lookup_font_def SUPPORTED_FONTS_def Object_prototype_keys_def)


section \<open>Properties of the handler\<close>

subsection \<open>The two loops and the canvas calls\<close>

lemma attempt_Inr: "attempt e op k = Inr v \<longleftrightarrow> canvas_throws e op = None \<and> k = Inr v"
  by (auto simp: attempt_def split: option.splits)

lemma then_do_Inr: "then_do r k = Inr v \<longleftrightarrow> (\<exists>u. r = Inr u \<and> k u = Inr v)"
  by (cases r) (auto simp: then_do_def)

lemma covers_sizes:
  "width ctx' = width ctx \<Longrightarrow> height ctx' = height ctx \<Longrightarrow>
   covers ctx' x y w h = covers ctx x y w h"
  by (cases "(ctx, x, y, w, h)" rule: covers.cases) auto

lemma measure_forEach_success:
  assumes "measure_forEach e r b px segs (ctx, t) = Inr (ctx', t')"
  shows "t' = foldl (js_add (round_double e)) t (map (run_width e r b px) segs) \<and>
         width ctx' = width ctx \<and> height ctx' = height ctx \<and>
         fillStyle ctx' = fillStyle ctx \<and> background ctx' = background ctx \<and>
         calls ctx' = calls ctx"
  using assms
proof (induction segs arbitrary: ctx t)
  case Nil
  then show ?case by simp
next
  case (Cons seg segs)
  let ?ctx1 = "ctx\<lparr>font := (px, if isBold seg then b else r)\<rparr>"
  from Cons.prems have rec: "measure_forEach e r b px segs
      (?ctx1, js_add (round_double e) t (measureText_width e (font ?ctx1) (text seg)))
        = Inr (ctx', t')"
    by (simp add: Let_def attempt_Inr)
  from Cons.IH[OF rec] show ?case by (simp add: run_width_def)
qed

lemma text_colour_idem: "text_colour e (text_colour e c) = text_colour e c"
  by (simp add: text_colour_def split: option.splits)

lemma set_fillStyle_fields [simp]:
  "width (set_fillStyle e s c) = width c" "height (set_fillStyle e s c) = height c"
  "background (set_fillStyle e s c) = background c" "calls (set_fillStyle e s c) = calls c"
  "font (set_fillStyle e s c) = font c" "textBaseline (set_fillStyle e s c) = textBaseline c"
  by (simp_all add: set_fillStyle_def)

lemma set_fillStyle_black [simp]:
  "fillStyle (set_fillStyle e ''black'' c) = text_colour e (fillStyle c)"
  by (simp add: set_fillStyle_def text_colour_def split: option.splits)

lemma draw_forEach_success:
  assumes "draw_forEach e r b px h segs (ctx, x) = Inr (ctx', x')"
  shows "width ctx' = width ctx \<and> height ctx' = height ctx \<and>
         background ctx' = background ctx \<and>
         calls ctx' = calls ctx @
           draw_calls e r b px (text_colour e (fillStyle ctx))
             (js_div (round_double e) h (Num 2)) x segs"
  using assms
proof (induction segs arbitrary: ctx x)
  case Nil
  then show ?case by simp
next
  case (Cons seg segs)
  let ?ctx3 = "(set_fillStyle e ''black''
                 (ctx\<lparr>font := (px, if isBold seg then b else r)\<rparr>))\<lparr>textBaseline := ''middle''\<rparr>"
  let ?y = "js_div (round_double e) h (Num 2)"
  from Cons.prems have rec: "draw_forEach e r b px h segs
      (fillText (text seg) x ?y ?ctx3,
       js_add (round_double e) x (measureText_width e (font ?ctx3) (text seg))) = Inr (ctx', x')"
    by (simp add: Let_def attempt_Inr)
  from Cons.IH[OF rec] show ?case
    by (simp add: fillText_def text_colour_idem run_width_def)
qed

lemma draw_request_success:
  fixes W H px pad :: number
  assumes run: "draw_request e txt fs bg sc r b = Inr ctx"
    and px: "px = js_mul (round_double e) fs sc"
    and pad: "pad = js_mul (round_double e) (Num 8) sc"
    and W: "W = Math_ceil (js_add (round_double e) (total_width e r b px (parseText txt))
                   (js_mul (round_double e) pad (Num 2)))"
    and H: "H = Math_ceil (js_add (round_double e) px (js_mul (round_double e) pad (Num 2)))"
  shows "width ctx = to_size e W \<and> height ctx = to_size e H \<and>
         calls ctx = ClearRect (Num 0) (Num 0) W H
           # (if bg \<noteq> ''transparent'' then [FillRect (fill_colour e bg) (Num 0) (Num 0) W H]
              else [])
           @ draw_calls e r b px
               (text_colour e (if bg \<noteq> ''transparent'' then fill_colour e bg else (0, 0, 0, 255)))
               (js_div (round_double e) H (Num 2)) pad (parseText txt) \<and>
         background ctx =
           (if bg \<noteq> ''transparent'' \<and> covers ctx (Num 0) (Num 0) W H
            then fill_colour e bg else (0, 0, 0, 0))"
proof -
  from run obtain ctx1 t where m: "measure_forEach e r b px (parseText txt)
        (createCanvas e (Num 1) (Num 1), Num 0) = Inr (ctx1, t)"
    by (auto simp: draw_request_def attempt_Inr then_do_Inr Let_def px)
  from measure_forEach_success[OF m]
  have t: "t = total_width e r b px (parseText txt)"
    and c1: "fillStyle ctx1 = (0, 0, 0, 255)" "calls ctx1 = []"
    by (simp_all add: total_width_def createCanvas_def)
  let ?ctx2 = "ctx1\<lparr>width := to_size e W, height := to_size e H, background := (0, 0, 0, 0)\<rparr>"
  let ?ctx3 = "clearRect (Num 0) (Num 0) W H ?ctx2"
  let ?ctx4 = "if bg \<noteq> ''transparent''
               then fillRect e (Num 0) (Num 0) W H (set_fillStyle e bg ?ctx3) else ?ctx3"
  from run m obtain x where d: "draw_forEach e r b px H (parseText txt) (?ctx4, pad) = Inr (ctx, x)"
    by (auto simp: draw_request_def attempt_Inr then_do_Inr Let_def px[symmetric] pad[symmetric]
        t W[symmetric] H[symmetric] split: if_splits)
  have fs4: "fillStyle ?ctx4 = (if bg \<noteq> ''transparent'' then fill_colour e bg else (0, 0, 0, 255))"
    by (simp add: fillRect_def clearRect_def set_fillStyle_def fill_colour_def c1
        split: option.splits)
  have wh4: "width ?ctx4 = to_size e W" "height ?ctx4 = to_size e H"
    by (simp_all add: fillRect_def clearRect_def)
  have calls4: "calls ?ctx4 = ClearRect (Num 0) (Num 0) W H
           # (if bg \<noteq> ''transparent'' then [FillRect (fill_colour e bg) (Num 0) (Num 0) W H]
              else [])"
    by (simp add: fillRect_def clearRect_def set_fillStyle_def fill_colour_def c1
        split: option.splits)
  have cov: "covers (set_fillStyle e bg ?ctx3) (Num 0) (Num 0) W H = covers ctx (Num 0) (Num 0) W H"
    using draw_forEach_success[OF d] wh4
    by (intro covers_sizes) (simp_all add: clearRect_def)
  have bg4: "background ?ctx4 =
           (if bg \<noteq> ''transparent'' \<and> covers ctx (Num 0) (Num 0) W H
            then fill_colour e bg else (0, 0, 0, 0))"
  proof (cases "bg \<noteq> ''transparent''")
    case True
    have "background (set_fillStyle e bg ?ctx3) = (0, 0, 0, 0)"
      by (simp add: clearRect_def)
    moreover have "fillStyle (set_fillStyle e bg ?ctx3) = fill_colour e bg"
      by (simp add: set_fillStyle_def clearRect_def fill_colour_def c1 split: option.splits)
    ultimately show ?thesis
      using True cov by (simp add: fillRect_def over_def alpha_def)
  next
    case False
    then show ?thesis by (simp add: clearRect_def)
  qed
  from draw_forEach_success[OF d] show ?thesis
    by (simp only: fs4 wh4 calls4 bg4 append_Cons append_Nil append_assoc)
qed

subsection \<open>What a successful request has done\<close>

lemma GET_try_render:
  "GET_try e q w = render e (requested_text q) (requested_font q) (requested_font_size e q)
                     (requested_background q) (requested_scale e q) w"
  by (simp add: GET_try_def request_defs)

lemma render_success:
  assumes "render e txt F fs bg sc w = (Inr res, w')"
  shows "\<exists>ctx w1.
     res = NextResponse (PngBuffer ctx)
             [(''Content-Type'', ''image/png''),
              (''Cache-Control'', ''public, max-age=31536000'')] \<and>
     toBuffer_throws e ctx = None \<and>
     registerLocalFont e F False w = (Inr F, w1) \<and>
     registerLocalFont e F True w1 = (Inr (F @ ''-bold''), w') \<and>
     draw_request e txt fs bg sc F (F @ ''-bold'') = Inr ctx"
proof -
  obtain r1 w1 where reg1: "registerLocalFont e F False w = (r1, w1)"
    by (cases "registerLocalFont e F False w")
  obtain r2 w2 where reg2: "registerLocalFont e F True w1 = (r2, w2)"
    by (cases "registerLocalFont e F True w1")
  from assms reg1 obtain h1 where r1: "r1 = Inr h1"
    by (cases r1) (auto simp: render_def)
  from assms reg1 reg2 r1 obtain h2 where r2: "r2 = Inr h2"
    by (cases r2) (auto simp: render_def)
  have h1: "h1 = F" using registerLocalFont_handle[OF reg1[unfolded r1]] by simp
  have h2: "h2 = F @ ''-bold''" using registerLocalFont_handle[OF reg2[unfolded r2]] by simp
  show ?thesis
    using assms reg1 reg2 unfolding r1 r2 h1 h2
    by (auto simp: render_def split: sum.splits option.splits)
qed

lemma GET_success:
  assumes "GET e q w = (NextResponse buf hdrs, w')"
  shows "GET_try e q w = (Inr (NextResponse buf hdrs), w')"
  using assms by (auto simp: GET_def split: prod.splits sum.splits)

lemma GET_rendered:
  assumes "GET e q w = (NextResponse (PngBuffer ctx) hdrs, w')"
  shows "draw_request e (requested_text q) (requested_font_size e q) (requested_background q)
           (requested_scale e q) (requested_font q) (requested_font q @ ''-bold'') = Inr ctx \<and>
         toBuffer_throws e ctx = None \<and>
         (\<exists>w1. registerLocalFont e (requested_font q) False w = (Inr (requested_font q), w1) \<and>
               registerLocalFont e (requested_font q) True w1
                 = (Inr (requested_font q @ ''-bold''), w'))"
  using render_success[OF GET_success[OF assms, unfolded GET_try_render]] by auto

lemma GET_try_result:
  assumes "GET_try e q w = (Inr res, w')"
  shows "\<exists>ctx hdrs. res = NextResponse (PngBuffer ctx) hdrs \<and> toBuffer_throws e ctx = None"
  using render_success[OF assms[unfolded GET_try_render]] by blast

subsection \<open>Failures\<close>

text \<open>
  C6. The handler answers every request with a response. Whatever error the
  \<^verbatim>\<open>try\<close> block throws (from font resolution or from the canvas library), the answer is the
  same JSON body with status 500, which carries nothing of the error (the error goes to
  the console) and no bitmap; an image is answered only when the whole block, the PNG
  encoding included, has run without an error.
\<close>

theorem GET_catches_all:
  "(\<exists>err w'. GET_try e q w = (Inl err, w') \<and>
       GET e q w = (NextResponse_json [(''error'', ''Failed to generate image'')] 500,
                    w'\<lparr>console_errors := console_errors w' @ [err]\<rparr>) \<and>
       bitmap (fst (GET e q w)) = None) \<or>
   (\<exists>ctx hdrs w'. GET_try e q w = (Inr (NextResponse (PngBuffer ctx) hdrs), w') \<and>
       GET e q w = (NextResponse (PngBuffer ctx) hdrs, w') \<and>
       toBuffer_throws e ctx = None)"
proof (cases "GET_try e q w")
  case (Pair r w')
  show ?thesis
  proof (cases r)
    case (Inl err)
    with Pair show ?thesis by (simp add: GET_def bitmap_def)
  next
    case (Inr res)
    with Pair GET_try_result[of e q w res w'] show ?thesis by (auto simp: GET_def)
  qed
qed

subsection \<open>Canvas geometry\<close>

lemma GET_geometry:
  assumes "GET e q w = (NextResponse (PngBuffer ctx) hdrs, w')"
    and "px = js_mul (round_double e) (requested_font_size e q) (requested_scale e q)"
    and "pad = js_mul (round_double e) (Num 8) (requested_scale e q)"
    and "W = Math_ceil (js_add (round_double e)
                 (total_width e (requested_font q) (requested_font q @ ''-bold'') px
                    (parseText (requested_text q)))
                 (js_mul (round_double e) pad (Num 2)))"
    and "H = Math_ceil (js_add (round_double e) px (js_mul (round_double e) pad (Num 2)))"
  shows "width ctx = to_size e W \<and> height ctx = to_size e H \<and>
         calls ctx = ClearRect (Num 0) (Num 0) W H
           # (if requested_background q \<noteq> ''transparent''
              then [FillRect (fill_colour e (requested_background q)) (Num 0) (Num 0) W H]
              else [])
           @ draw_calls e (requested_font q) (requested_font q @ ''-bold'') px
               (text_colour e (if requested_background q \<noteq> ''transparent''
                               then fill_colour e (requested_background q) else (0, 0, 0, 255)))
               (js_div (round_double e) H (Num 2)) pad (parseText (requested_text q)) \<and>
         background ctx =
           (if requested_background q \<noteq> ''transparent'' \<and> covers ctx (Num 0) (Num 0) W H
            then fill_colour e (requested_background q) else (0, 0, 0, 0))"
  using GET_rendered[OF assms(1)] assms(2-5)
  by (intro draw_request_success) auto




subsection \<open>Background\<close>

lemma draw_calls_FillText: "list_all is_FillText (draw_calls e r b px c y x segs)"
  by (induction segs arbitrary: x) simp_all

text \<open>
  C5, as stated, fails for a translucent colour and for a string that is no colour: a
  background of \<^verbatim>\<open>rgba(255,0,0,0.5)\<close> leaves the surface with alpha 127, not fully
  opaque, and \<^verbatim>\<open>notacolor\<close> leaves the fill style at its default, so the surface is
  filled black.
\<close>

theorem GET_background_counterexample:
  "map_option background (bitmap (fst (GET example_env
       (query [(''text'', ''Hi''), (''background_color'', ''rgba(255,0,0,0.5)'')]) fresh_world)))
     = Some (255, 0, 0, 127) \<and>
   parse_color example_env ''notacolor'' = None \<and>
   map_option background (bitmap (fst (GET example_env
       (query [(''text'', ''Hi''), (''background_color'', ''notacolor'')]) fresh_world)))
     = Some (0, 0, 0, 255)"
  by (simp add: eval_defs bitmap_def)

text \<open>
  C5, amended. For every request that is rendered: with the background
  \<^verbatim>\<open>transparent\<close> the surface is cleared, receives no fill and stays transparent under
  the text; with any other background the handler sets it as fill style and fills the
  rectangle from the origin over the computed width and height, after clearing and
  before any text. Where that rectangle covers the canvas, the surface under the text
  then has the colour the string denotes, with the alpha of that colour (full opacity
  for an opaque colour only); a string that denotes no colour fills it in the default
  black.
\<close>

theorem GET_background:
  assumes "GET e q w = (NextResponse (PngBuffer ctx) hdrs, w')"
  shows "let rnd = round_double e;
             bg = requested_background q;
             padding = js_mul rnd (Num 8) (requested_scale e q);
             scaledFontSize = js_mul rnd (requested_font_size e q) (requested_scale e q);
             W = Math_ceil (js_add rnd
                   (total_width e (requested_font q) (requested_font q @ ''-bold'')
                      scaledFontSize (parseText (requested_text q)))
                   (js_mul rnd padding (Num 2)));
             H = Math_ceil (js_add rnd scaledFontSize (js_mul rnd padding (Num 2)));
             texts = draw_calls e (requested_font q) (requested_font q @ ''-bold'')
                       scaledFontSize
                       (text_colour e (if bg \<noteq> ''transparent'' then fill_colour e bg
                                       else (0, 0, 0, 255)))
                       (js_div rnd H (Num 2)) padding (parseText (requested_text q))
         in list_all is_FillText texts \<and>
            (bg = ''transparent'' \<longrightarrow>
               calls ctx = ClearRect (Num 0) (Num 0) W H # texts \<and>
               background ctx = (0, 0, 0, 0)) \<and>
            (bg \<noteq> ''transparent'' \<longrightarrow>
               calls ctx = ClearRect (Num 0) (Num 0) W H
                 # FillRect (fill_colour e bg) (Num 0) (Num 0) W H # texts) \<and>
            (bg \<noteq> ''transparent'' \<and> covers ctx (Num 0) (Num 0) W H \<longrightarrow>
               background ctx = fill_colour e bg) \<and>
            (\<forall>c. parse_color e bg = Some c \<longrightarrow> fill_colour e bg = c) \<and>
            (parse_color e bg = None \<longrightarrow> fill_colour e bg = (0, 0, 0, 255))"
  using GET_geometry[OF assms refl refl refl refl]
  by (simp add: Let_def draw_calls_FillText fill_colour_def)

theorem GET_background_witness:
  "requested_background (query [(''text'', ''Hi'')]) = ''transparent'' \<and>
   map_option background (bitmap (fst (GET example_env (query [(''text'', ''Hi'')]) fresh_world)))
     = Some (0, 0, 0, 0) \<and>
   map_option calls (bitmap (fst (GET example_env (query [(''text'', ''Hi'')]) fresh_world))) =
     Some [ClearRect (Num 0) (Num 0) (Num 58) (Num 80),
           FillText (Num 48, ''Suisse'') (0, 0, 0, 255) ''middle'' ''Hi'' (Num 16) (Num 40)] \<and>
   requested_background (query [(''text'', ''Hi''), (''background_color'', ''red'')]) = ''red'' \<and>
   parse_color example_env ''red'' = Some (255, 0, 0, 255) \<and>
   map_option background (bitmap (fst (GET example_env
       (query [(''text'', ''Hi''), (''background_color'', ''red'')]) fresh_world)))
     = Some (255, 0, 0, 255) \<and>
   map_option calls (bitmap (fst (GET example_env
       (query [(''text'', ''Hi''), (''background_color'', ''red'')]) fresh_world))) =
     Some [ClearRect (Num 0) (Num 0) (Num 58) (Num 80),
           FillRect (255, 0, 0, 255) (Num 0) (Num 0) (Num 58) (Num 80),
           FillText (Num 48, ''Suisse'') (0, 0, 0, 255) ''middle'' ''Hi'' (Num 16) (Num 40)]"
proof -
  let ?q = "query [(''text'', ''Hi'')]"
  let ?q' = "query [(''text'', ''Hi''), (''background_color'', ''red'')]"
  obtain ctx hdrs w' where clear:
    "GET example_env ?q fresh_world = (NextResponse (PngBuffer ctx) hdrs, w')"
    by (simp add: eval_defs)
  obtain ctx' hdrs' v' where red:
    "GET example_env ?q' fresh_world = (NextResponse (PngBuffer ctx') hdrs', v')"
    and size: "width ctx' = 58" "height ctx' = 80"
    by (simp add: eval_defs)
  have params: "requested_background ?q = ''transparent''" "requested_background ?q' = ''red''"
    "requested_scale example_env ?q = Num 2" "requested_font_size example_env ?q = Num 24"
    "requested_font ?q = ''Suisse''" "requested_text ?q = ''Hi''"
    "requested_scale example_env ?q' = Num 2" "requested_font_size example_env ?q' = Num 24"
    "requested_font ?q' = ''Suisse''" "requested_text ?q' = ''Hi''"
    by (simp_all add: request_defs query_def or_default_def parseInt_def isWhiteSpace_def
        isDigit_def digitValue_def example_env_def)
  have env: "round_double example_env = Num"
    "parse_color example_env ''red'' = Some (255, 0, 0, 255)"
    "parse_color example_env ''black'' = Some (0, 0, 0, 255)"
    by (simp_all add: example_env_def)
  have pt: "parseText ''Hi'' = [\<lparr>text = ''Hi'', isBold = False\<rparr>]"
    by (simp add: parseText_def)
  have tw: "total_width example_env ''Suisse'' ''Suisse-bold'' (Num 48)
              [\<lparr>text = ''Hi'', isBold = False\<rparr>] = Num (51 / 2)"
    by (simp add: total_width_def run_width_def example_env_def)
  have rw: "run_width example_env ''Suisse'' ''Suisse-bold'' (Num 48)
              \<lparr>text = ''Hi'', isBold = False\<rparr> = Num (51 / 2)"
    by (simp add: run_width_def example_env_def)
  from GET_background[OF clear]
  have a: "calls ctx = [ClearRect (Num 0) (Num 0) (Num 58) (Num 80),
           FillText (Num 48, ''Suisse'') (0, 0, 0, 255) ''middle'' ''Hi'' (Num 16) (Num 40)]"
    "background ctx = (0, 0, 0, 0)"
    by (simp_all add: Let_def params env pt tw rw text_colour_def)
  from GET_background[OF red] size
  have b: "calls ctx' = [ClearRect (Num 0) (Num 0) (Num 58) (Num 80),
           FillRect (255, 0, 0, 255) (Num 0) (Num 0) (Num 58) (Num 80),
           FillText (Num 48, ''Suisse'') (0, 0, 0, 255) ''middle'' ''Hi'' (Num 16) (Num 40)]"
    "background ctx' = (255, 0, 0, 255)"
    by (simp_all add: Let_def params env pt tw rw text_colour_def fill_colour_def)
  show ?thesis
    by (simp add: clear red a b params env bitmap_def)
qed

subsection \<open>Defaults\<close>

text \<open>
  C7. A request in which a parameter is absent runs the pipeline with the documented
  default for it: the text \<^verbatim>\<open>Hello World\<close>, the font \<^verbatim>\<open>Suisse\<close>, the font size 24,
  the background \<^verbatim>\<open>transparent\<close>, the scale 2 (24 and 2 as the doubles they are).
\<close>

theorem GET_defaults:
  "(q ''text'' = None \<longrightarrow>
      GET_try e q w = render e ''Hello World'' (requested_font q) (requested_font_size e q)
                        (requested_background q) (requested_scale e q) w) \<and>
   (q ''font'' = None \<longrightarrow>
      GET_try e q w = render e (requested_text q) ''Suisse'' (requested_font_size e q)
                        (requested_background q) (requested_scale e q) w) \<and>
   (q ''font_size'' = None \<and> round_double e 24 = Num 24 \<longrightarrow>
      GET_try e q w = render e (requested_text q) (requested_font q) (Num 24)
                        (requested_background q) (requested_scale e q) w) \<and>
   (q ''background_color'' = None \<longrightarrow>
      GET_try e q w = render e (requested_text q) (requested_font q) (requested_font_size e q)
                        ''transparent'' (requested_scale e q) w) \<and>
   (q ''scale'' = None \<and> round_double e 2 = Num 2 \<longrightarrow>
      GET_try e q w = render e (requested_text q) (requested_font q) (requested_font_size e q)
                        (requested_background q) (Num 2) w)"
  by (simp add: GET_try_def request_defs or_default_def parseInt_def isWhiteSpace_def
      isDigit_def digitValue_def)

theorem GET_defaults_witness:
  "query [] ''text'' = None \<and> query [] ''font'' = None \<and> query [] ''font_size'' = None \<and>
   query [] ''background_color'' = None \<and> query [] ''scale'' = None \<and>
   round_double example_env 24 = Num 24 \<and> round_double example_env 2 = Num 2 \<and>
   GET_try example_env (query []) fresh_world =
     render example_env ''Hello World'' ''Suisse'' (Num 24) ''transparent'' (Num 2) fresh_world \<and>
   fst (GET example_env (query []) fresh_world) =
     NextResponse (PngBuffer
        \<lparr>width = 173, height = 80, font = (Num 48, ''Suisse''), fillStyle = (0, 0, 0, 255),
         textBaseline = ''middle'', background = (0, 0, 0, 0),
         calls = [ClearRect (Num 0) (Num 0) (Num 173) (Num 80),
                  FillText (Num 48, ''Suisse'') (0, 0, 0, 255) ''middle'' ''Hello World''
                    (Num 16) (Num 40)]\<rparr>)
       [(''Content-Type'', ''image/png''), (''Cache-Control'', ''public, max-age=31536000'')]"
proof -
  have absent: "query [] ''text'' = None" "query [] ''font'' = None"
    "query [] ''font_size'' = None" "query [] ''background_color'' = None"
    "query [] ''scale'' = None"
    by (simp_all add: query_def)
  have rnd: "round_double example_env 24 = Num 24" "round_double example_env 2 = Num 2"
    by (simp_all add: example_env_def)
  have rest: "requested_font (query []) = ''Suisse''"
    "requested_font_size example_env (query []) = Num 24"
    "requested_background (query []) = ''transparent''"
    "requested_scale example_env (query []) = Num 2"
    by (simp_all add: request_defs query_def or_default_def parseInt_def isWhiteSpace_def
        isDigit_def digitValue_def example_env_def)
  from GET_defaults[of "query []" example_env fresh_world] absent
  have all: "GET_try example_env (query []) fresh_world =
     render example_env ''Hello World'' ''Suisse'' (Num 24) ''transparent'' (Num 2) fresh_world"
    by (simp only: rest)
  have run: "fst (GET example_env (query []) fresh_world) =
     NextResponse (PngBuffer
        \<lparr>width = 173, height = 80, font = (Num 48, ''Suisse''), fillStyle = (0, 0, 0, 255),
         textBaseline = ''middle'', background = (0, 0, 0, 0),
         calls = [ClearRect (Num 0) (Num 0) (Num 173) (Num 80),
                  FillText (Num 48, ''Suisse'') (0, 0, 0, 255) ''middle'' ''Hello World''
                    (Num 16) (Num 40)]\<rparr>)
       [(''Content-Type'', ''image/png''), (''Cache-Control'', ''public, max-age=31536000'')]"
    by (simp add: eval_defs)
  from absent rnd all run show ?thesis by blast
qed

subsection \<open>Scaling\<close>








subsection \<open>A text without runs\<close>





subsection \<open>Families outside the allow-list\<close>

text \<open>
  The cache only ever holds keys of the table, so a family outside the allow-list is
  never rendered: at the latest its bold face is neither cached nor found. Together
  with C4's failing input this is what the code does for such a family: no bitmap, but
  not always the error that lists the supported families.
\<close>

lemma lookup_font_own:
  "map_of SUPPORTED_FONTS f = Some c \<Longrightarrow> f \<in> cache_keys \<and> f @ ''-bold'' \<in> cache_keys"
  by (auto simp: SUPPORTED_FONTS_def cache_keys_def split: if_splits)

lemma registerLocalFont_registry_ok:
  assumes "registry_ok w"
  shows "registry_ok (snd (registerLocalFont e f b w))"
proof (cases "map_of SUPPORTED_FONTS f")
  case None
  with assms show ?thesis
    by (auto simp: registerLocalFont_def lookup_font_def Let_def registry_ok_def
        split: option.splits)
next
  case (Some c)
  from lookup_font_own[OF Some] assms Some show ?thesis
    by (auto simp: registerLocalFont_def lookup_font_def Let_def registry_ok_def
        split: option.splits)
qed

lemma bold_key_own:
  assumes "f @ ''-bold'' \<in> cache_keys"
  shows "f \<in> set (map fst SUPPORTED_FONTS)"
proof -
  have rv: "rev (f @ ''-bold'') = ''dlob-'' @ rev f" by simp
  from assms have "rev (f @ ''-bold'') \<in> rev ` cache_keys" by blast
  then have "rev f \<in> rev ` set (map fst SUPPORTED_FONTS)"
    unfolding rv by (auto simp: cache_keys_def SUPPORTED_FONTS_def)
  then show ?thesis by auto
qed

lemma GET_unlisted_font:
  assumes ok: "registry_ok w"
    and unlisted: "requested_font q \<notin> set (map fst SUPPORTED_FONTS)"
  shows "fst (GET e q w) = NextResponse_json [(''error'', ''Failed to generate image'')] 500"
proof -
  let ?F = "requested_font q"
  have nokey: "?F @ ''-bold'' \<notin> registeredFonts (snd (registerLocalFont e ?F False w))"
    using registerLocalFont_registry_ok[OF ok, of e ?F False] bold_key_own[of ?F] unlisted
    by (auto simp: registry_ok_def)
  have own: "map_of SUPPORTED_FONTS ?F = None"
    using unlisted by (simp add: map_of_eq_None_iff)
  have "\<exists>err w'. registerLocalFont e ?F True w1 = (Inl err, w')"
    if "?F @ ''-bold'' \<notin> registeredFonts w1" for w1
    using that own
    by (auto simp: registerLocalFont_def lookup_font_def Let_def split: option.splits)
  with nokey have bold:
    "\<exists>err w'. registerLocalFont e ?F True (snd (registerLocalFont e ?F False w)) = (Inl err, w')"
    by blast
  obtain r1 w1 where reg1: "registerLocalFont e ?F False w = (r1, w1)"
    by (cases "registerLocalFont e ?F False w")
  with bold obtain err w2 where reg2: "registerLocalFont e ?F True w1 = (Inl err, w2)" by auto
  have "\<exists>err w'. GET_try e q w = (Inl err, w')"
    using reg1 reg2 by (cases r1) (auto simp: GET_try_render render_def)
  then show ?thesis by (auto simp: GET_def)
qed

lemma GET_registry_ok:
  assumes "registry_ok w"
  shows "registry_ok (snd (GET e q w))"
proof -
  let ?F = "requested_font q"
  let ?w1 = "snd (registerLocalFont e ?F False w)"
  let ?w2 = "snd (registerLocalFont e ?F True ?w1)"
  have ok1: "registry_ok ?w1" by (rule registerLocalFont_registry_ok[OF assms])
  have ok2: "registry_ok ?w2" by (rule registerLocalFont_registry_ok[OF ok1])
  have "snd (GET_try e q w) = ?w1 \<or> snd (GET_try e q w) = ?w2"
    by (auto simp: GET_try_render render_def split: prod.splits sum.splits option.splits)
  with ok1 ok2 have "registry_ok (snd (GET_try e q w))" by auto
  then show ?thesis
    by (auto simp: GET_def registry_ok_def split: prod.splits sum.splits)
qed

lemma fresh_world_registry_ok: "registry_ok fresh_world"
  by (simp add: registry_ok_def fresh_world_def)

end
